theory Spec2Isabelle
  imports Main "HOL-Library.AList"
begin

section \<open>Python values\<close>

text \<open>
  A Python \<open>str\<close> is a sequence of Unicode code points and \<open>len\<close> counts code points,
  so a string is a list of code points here. \<open>ascii\<close> embeds an ASCII literal.
\<close>

type_synonym ustr = "nat list"

definition ascii :: "string \<Rightarrow> ustr" where
  "ascii s = map of_char s"

text \<open>
  The values \<open>json.loads\<close> produces: \<open>None\<close>, \<open>bool\<close>, \<open>int\<close>, \<open>str\<close>, \<open>list\<close>
  and \<open>dict\<close> (its items in insertion order). Fractional numbers are left out.
\<close>

datatype json =
    JNull
  | JBool bool
  | JNum int
  | JStr ustr
  | JList "json list"
  | JDict "(ustr \<times> json) list"

text \<open>Exceptions. What the code reads of an exception is \<open>str(e)\<close> only.\<close>

datatype exn =
    NoAttribute json string  \<comment> \<open>AttributeError: the object has no such attribute\<close>
  | NotIterable json         \<comment> \<open>TypeError: object is not iterable\<close>
  | Unhashable json          \<comment> \<open>TypeError: unhashable type\<close>
  | Raised ustr              \<comment> \<open>raised inside a library call; the text is \<open>str(e)\<close>\<close>

text \<open>Truth value testing (\<open>if x\<close>, \<open>not x\<close>, \<open>x or y\<close>).\<close>

fun truthy :: "json \<Rightarrow> bool" where
  "truthy JNull = False"
| "truthy (JBool b) = b"
| "truthy (JNum n) = (n \<noteq> 0)"
| "truthy (JStr s) = (s \<noteq> [])"
| "truthy (JList xs) = (xs \<noteq> [])"
| "truthy (JDict kvs) = (kvs \<noteq> [])"

text \<open>\<open>x.get(key, default)\<close>: only a dict has the method.\<close>

fun py_get :: "json \<Rightarrow> ustr \<Rightarrow> json \<Rightarrow> exn + json" where
  "py_get (JDict kvs) k d = Inr (case map_of kvs k of None \<Rightarrow> d | Some v \<Rightarrow> v)"
| "py_get v k d = Inl (NoAttribute v ''get'')"

text \<open>\<open>for item in x\<close>: a list gives its elements, a dict its keys, a string its characters.\<close>

fun py_iter :: "json \<Rightarrow> exn + json list" where
  "py_iter (JList xs) = Inr xs"
| "py_iter (JDict kvs) = Inr (map (\<lambda>kv. JStr (fst kv)) kvs)"
| "py_iter (JStr s) = Inr (map (\<lambda>c. JStr [c]) s)"
| "py_iter v = Inl (NotIterable v)"

text \<open>
  Dictionary keys: lists and dicts are unhashable; \<open>True\<close> and \<open>1\<close> (\<open>False\<close> and \<open>0\<close>)
  are the same key. \<open>d[k] = v\<close> replaces the value of an equal key, keeping the key
  object already stored, or appends a new item.
\<close>

datatype hkey = HNone | HNum int | HStr ustr

fun py_hash :: "json \<Rightarrow> exn + hkey" where
  "py_hash JNull = Inr HNone"
| "py_hash (JBool b) = Inr (HNum (if b then 1 else 0))"
| "py_hash (JNum n) = Inr (HNum n)"
| "py_hash (JStr s) = Inr (HStr s)"
| "py_hash v = Inl (Unhashable v)"

type_synonym pydict = "(json \<times> json) list"

fun dict_store :: "hkey \<Rightarrow> json \<Rightarrow> json \<Rightarrow> pydict \<Rightarrow> pydict" where
  "dict_store h k v [] = [(k, v)]"
| "dict_store h k v ((k', v') # d) =
     (if py_hash k' = Inr h then (k', v) # d else (k', v') # dict_store h k v d)"

definition dict_setitem :: "pydict \<Rightarrow> json \<Rightarrow> json \<Rightarrow> exn + pydict" where
  "dict_setitem d k v =
     (case py_hash k of Inl e \<Rightarrow> Inl e | Inr h \<Rightarrow> Inr (dict_store h k v d))"

section \<open>Collaborators\<close>

text \<open>
  The outbound HTTP client. A call either raises or returns a response, of which the code
  reads \<open>status_code\<close>, \<open>json()\<close> (which raises on a body that is not JSON) and
  \<open>text\<close>. \<open>session_get\<close> and \<open>session_post\<close> are the calls through the parser's
  \<open>requests.Session\<close>.
\<close>

record response =
  status_code :: int
  resp_json :: "exn + json"
  resp_text :: ustr

record http =
  requests_get :: "ustr \<Rightarrow> exn + response"
  session_get :: "ustr \<Rightarrow> exn + response"
  session_post :: "ustr \<Rightarrow> json \<Rightarrow> json \<Rightarrow> exn + response"
  now_isoformat :: ustr
  getenv :: "string \<Rightarrow> json"

text \<open>
  What happens besides the returned value, in order: the outbound calls (with their
  timeout in seconds), the log lines, and the construction of a new parser object.
\<close>

datatype log_msg =
    NoCredentials            \<comment> \<open>warning in \<open>authenticate\<close>\<close>
  | AuthSucceeded
  | AuthStatus int
  | AuthException exn
  | DecodeException exn
  | SearchException exn
  | PartsNotFound            \<comment> \<open>info in \<open>_parse_parts_from_html\<close>\<close>
  | HtmlException exn
  | PartInfoException exn
  | DetailsException exn
  | DetailsParseException exn

datatype event =
    RequestsGet ustr nat
  | SessionGet ustr nat
  | SessionPost ustr json json nat
  | LogInfo log_msg
  | LogWarning log_msg
  | LogError log_msg
  | NewParser json json

section \<open>Results\<close>

text \<open>
  The texts stored under the key \<open>error\<close>: the fixed message of the length check, the
  fixed message of a decode response other than 200, the two messages that embed a status
  code, and \<open>str(e)\<close> of a caught exception.
\<close>

datatype message =
    InvalidVinFormat
  | DecodeFailed
  | EmexRequestFailed int
  | RequestFailed int
  | ExceptionText exn

text \<open>
  A part is the dict built by \<open>_extract_part_info\<close>; an offer is the dict of
  \<open>_parse_part_details\<close>, whose four keys hold \<open>None\<close> or a string. Both list their
  items in insertion order.
\<close>

type_synonym part_info = "(string \<times> ustr) list"

type_synonym offer_data = "(string \<times> ustr option) list"

text \<open>The dicts the parser's methods return, one constructor for each set of keys.\<close>

datatype result =
    ErrorVin message ustr                              \<comment> \<open>\<open>error\<close>, \<open>vin\<close>\<close>
  | Decoded ustr pydict                                \<comment> \<open>\<open>vin\<close>, \<open>vehicle_info\<close>, \<open>decoded: True\<close>\<close>
  | SearchResult ustr pydict "part_info list" nat ustr
      \<comment> \<open>\<open>vin\<close>, \<open>vehicle_info\<close>, \<open>parts\<close>, \<open>total_parts\<close>, \<open>timestamp\<close>\<close>
  | ErrorArticle message ustr                          \<comment> \<open>\<open>error\<close>, \<open>article\<close>\<close>
  | Details ustr "offer_data list"                     \<comment> \<open>\<open>article\<close>, \<open>offers\<close>\<close>

text \<open>\<open>'error' in d\<close>\<close>

fun has_error :: "result \<Rightarrow> bool" where
  "has_error (ErrorVin m v) = True"
| "has_error (ErrorArticle m a) = True"
| "has_error r = False"

section \<open>decode_vin\<close>

definition nhtsa_url :: "ustr \<Rightarrow> ustr" where
  "nhtsa_url vin_code =
     ascii ''https://vpic.nhtsa.dot.gov/api/vehicles/DecodeVin/'' @ vin_code
       @ ascii ''?format=json''"

text \<open>The loop over \<open>results\<close>, with \<open>vehicle_info\<close> as accumulator.\<close>

fun collect_vehicle_info :: "json list \<Rightarrow> pydict \<Rightarrow> exn + pydict" where
  "collect_vehicle_info [] vehicle_info = Inr vehicle_info"
| "collect_vehicle_info (item # items) vehicle_info =
     (case py_get item (ascii ''Value'') JNull of
        Inl e \<Rightarrow> Inl e
      | Inr v \<Rightarrow>
          if truthy v then
            (case py_get item (ascii ''Variable'') JNull of
               Inl e \<Rightarrow> Inl e
             | Inr k \<Rightarrow>
                 (case dict_setitem vehicle_info k v of
                    Inl e \<Rightarrow> Inl e
                  | Inr vehicle_info' \<Rightarrow> collect_vehicle_info items vehicle_info'))
          else collect_vehicle_info items vehicle_info)"

text \<open>Lines 92 to 98: \<open>response.json()\<close>, \<open>data.get('Results', [])\<close> and the loop.\<close>

definition vehicle_info_of :: "response \<Rightarrow> exn + pydict" where
  "vehicle_info_of response =
     (case resp_json response of
        Inl e \<Rightarrow> Inl e
      | Inr data \<Rightarrow>
          (case py_get data (ascii ''Results'') (JList []) of
             Inl e \<Rightarrow> Inl e
           | Inr results \<Rightarrow>
               (case py_iter results of
                  Inl e \<Rightarrow> Inl e
                | Inr items \<Rightarrow> collect_vehicle_info items [])))"

text \<open>The body of the \<open>try\<close> block of \<open>decode_vin\<close>, and the method with its handler.\<close>

definition decode_vin_try :: "http \<Rightarrow> ustr \<Rightarrow> (exn + result) \<times> event list" where
  "decode_vin_try net vin_code =
     (if vin_code = [] \<or> length vin_code \<noteq> 17 then
        (Inr (ErrorVin InvalidVinFormat vin_code), [])
      else
        (case requests_get net (nhtsa_url vin_code) of
           Inl e \<Rightarrow> (Inl e, [RequestsGet (nhtsa_url vin_code) 10])
         | Inr response \<Rightarrow>
             if status_code response = 200 then
               (case vehicle_info_of response of
                  Inl e \<Rightarrow> (Inl e, [RequestsGet (nhtsa_url vin_code) 10])
                | Inr vehicle_info \<Rightarrow>
                    (Inr (Decoded vin_code vehicle_info), [RequestsGet (nhtsa_url vin_code) 10]))
             else
               (Inr (ErrorVin DecodeFailed vin_code), [RequestsGet (nhtsa_url vin_code) 10])))"

definition decode_vin :: "http \<Rightarrow> ustr \<Rightarrow> result \<times> event list" where
  "decode_vin net vin_code =
     (case decode_vin_try net vin_code of
        (Inr r, evs) \<Rightarrow> (r, evs)
      | (Inl e, evs) \<Rightarrow> (ErrorVin (ExceptionText e) vin_code, evs @ [LogError (DecodeException e)]))"

text \<open>The events that are outbound calls.\<close>

fun is_call :: "event \<Rightarrow> bool" where
  "is_call (RequestsGet u t) = True"
| "is_call (SessionGet u t) = True"
| "is_call (SessionPost u l p t) = True"
| "is_call ev = False"

section \<open>The HTML library\<close>

text \<open>
  The three shapes of query the code makes: \<open>find_all(tag, class_=c)\<close>,
  \<open>find_all(tag, {k: v})\<close> (also with \<open>find\<close>) and \<open>find(class_=c)\<close>.
\<close>

datatype selector =
    TagClass ustr ustr
  | TagAttr ustr ustr ustr
  | AnyClass ustr

text \<open>
  The parsing library over its element type \<open>'e\<close>: the constructor
  \<open>BeautifulSoup(text, 'html.parser')\<close>, \<open>find_all\<close> (a list, empty when nothing matches),
  \<open>find\<close> (an element or \<open>None\<close>; an element is always truthy) and
  \<open>get_text(strip=True)\<close>. Each call may raise.
\<close>

record 'e bs4 =
  BeautifulSoup :: "ustr \<Rightarrow> exn + 'e"
  find_all :: "'e \<Rightarrow> selector \<Rightarrow> exn + 'e list"
  find_tag :: "'e \<Rightarrow> selector \<Rightarrow> exn + 'e option"
  get_text :: "'e \<Rightarrow> exn + ustr"

text \<open>
  \<open>soup.find_all(s1) or soup.find_all(s2) or ...\<close>: the operands are evaluated from the
  left, the first non-empty list is the value and the operands after it are not evaluated;
  when all are empty the value is the last one. The second component lists the selectors
  whose \<open>find_all\<close> was called.
\<close>

fun find_all_or :: "'e bs4 \<Rightarrow> 'e \<Rightarrow> selector list \<Rightarrow> (exn + 'e list) \<times> selector list" where
  "find_all_or bs soup [] = (Inr [], [])"
| "find_all_or bs soup (s # ss) =
     (case find_all bs soup s of
        Inl e \<Rightarrow> (Inl e, [s])
      | Inr nodes \<Rightarrow>
          if nodes \<noteq> [] \<or> ss = [] then (Inr nodes, [s])
          else (case find_all_or bs soup ss of (r, consulted) \<Rightarrow> (r, s # consulted)))"

text \<open>\<open>element.find(s1) or element.find(s2)\<close>\<close>

definition find_or :: "'e bs4 \<Rightarrow> 'e \<Rightarrow> selector \<Rightarrow> selector \<Rightarrow> exn + 'e option" where
  "find_or bs element s1 s2 =
     (case find_tag bs element s1 of
        Inl e \<Rightarrow> Inl e
      | Inr (Some n) \<Rightarrow> Inr (Some n)
      | Inr None \<Rightarrow> find_tag bs element s2)"

section \<open>Listings\<close>

definition part_strategies :: "selector list" where
  "part_strategies =
     [TagClass (ascii ''div'') (ascii ''part-item''),
      TagClass (ascii ''tr'') (ascii ''search-row''),
      TagAttr (ascii ''div'') (ascii ''data-type'') (ascii ''part'')]"

text \<open>The values of \<open>data-title\<close>, in Cyrillic: article, price, availability, term.\<close>

definition title_article :: ustr where
  "title_article = [0x410, 0x440, 0x442, 0x438, 0x43a, 0x443, 0x43b]"

definition title_price :: ustr where
  "title_price = [0x426, 0x435, 0x43d, 0x430]"

definition title_availability :: ustr where
  "title_availability = [0x41d, 0x430, 0x43b, 0x438, 0x447, 0x438, 0x435]"

definition title_delivery :: ustr where
  "title_delivery = [0x421, 0x440, 0x43e, 0x43a]"

definition td_title :: "ustr \<Rightarrow> selector" where
  "td_title v = TagAttr (ascii ''td'') (ascii ''data-title'') v"

text \<open>
  The six blocks of \<open>_extract_part_info\<close>, in order: the key stored and the two
  selectors joined by \<open>or\<close>.
\<close>

definition part_fields :: "(string \<times> selector \<times> selector) list" where
  "part_fields =
     [(''article'', AnyClass (ascii ''article''), td_title title_article),
      (''name'', AnyClass (ascii ''name''), AnyClass (ascii ''part-name'')),
      (''price'', AnyClass (ascii ''price''), td_title title_price),
      (''availability'', AnyClass (ascii ''availability''), td_title title_availability),
      (''manufacturer'', AnyClass (ascii ''manufacturer''), AnyClass (ascii ''brand'')),
      (''delivery_time'', AnyClass (ascii ''delivery''), td_title title_delivery)]"

text \<open>
  One block: \<open>x = element.find(s1) or element.find(s2)\<close>, then
  \<open>if x: part_info[key] = x.get_text(strip=True)\<close>; the blocks run in sequence and the
  first exception leaves the \<open>try\<close>.
\<close>

fun extract_fields ::
  "'e bs4 \<Rightarrow> 'e \<Rightarrow> (string \<times> selector \<times> selector) list \<Rightarrow> part_info \<Rightarrow> exn + part_info" where
  "extract_fields bs element [] part_info = Inr part_info"
| "extract_fields bs element ((key, s1, s2) # blocks) part_info =
     (case find_or bs element s1 s2 of
        Inl e \<Rightarrow> Inl e
      | Inr None \<Rightarrow> extract_fields bs element blocks part_info
      | Inr (Some n) \<Rightarrow>
          (case get_text bs n of
             Inl e \<Rightarrow> Inl e
           | Inr t \<Rightarrow> extract_fields bs element blocks (AList.update key t part_info)))"

definition extract_part_info_try :: "'e bs4 \<Rightarrow> 'e \<Rightarrow> exn + part_info option" where
  "extract_part_info_try bs element =
     (case extract_fields bs element part_fields [] of
        Inl e \<Rightarrow> Inl e
      | Inr part_info \<Rightarrow> Inr (if part_info \<noteq> [] then Some part_info else None))"

definition extract_part_info :: "'e bs4 \<Rightarrow> 'e \<Rightarrow> part_info option \<times> event list" where
  "extract_part_info bs element =
     (case extract_part_info_try bs element of
        Inr r \<Rightarrow> (r, [])
      | Inl e \<Rightarrow> (None, [LogError (PartInfoException e)]))"

text \<open>The loop of \<open>_parse_parts_from_html\<close>: \<open>if part_data: parts.append(part_data)\<close>.\<close>

fun collect_parts :: "'e bs4 \<Rightarrow> 'e list \<Rightarrow> part_info list \<Rightarrow> part_info list \<times> event list" where
  "collect_parts bs [] parts = (parts, [])"
| "collect_parts bs (item # items) parts =
     (case extract_part_info bs item of
        (part_data, evs) \<Rightarrow>
          (case collect_parts bs items
                  (case part_data of
                     None \<Rightarrow> parts
                   | Some p \<Rightarrow> if p \<noteq> [] then parts @ [p] else parts) of
             (parts', evs') \<Rightarrow> (parts', evs @ evs')))"

text \<open>
  \<open>_parse_parts_from_html\<close>. Inside its \<open>try\<close> only the \<open>find_all\<close> calls can raise
  (\<open>_extract_part_info\<close> catches its own exceptions), and then \<open>parts\<close> is still empty.
\<close>

definition parse_parts_from_html :: "'e bs4 \<Rightarrow> 'e \<Rightarrow> part_info list \<times> event list" where
  "parse_parts_from_html bs soup =
     (case fst (find_all_or bs soup part_strategies) of
        Inl e \<Rightarrow> ([], [LogError (HtmlException e)])
      | Inr part_items \<Rightarrow>
          (case collect_parts bs part_items [] of
             (parts, evs) \<Rightarrow>
               (parts, evs @ (if parts = [] then [LogInfo PartsNotFound] else []))))"

section \<open>Offers\<close>

definition offer_strategies :: "selector list" where
  "offer_strategies =
     [TagClass (ascii ''div'') (ascii ''offer-item''),
      TagClass (ascii ''tr'') (ascii ''offer-row'')]"

text \<open>The dict every iteration starts from, and the four blocks of the loop body.\<close>

definition empty_offer :: offer_data where
  "empty_offer =
     [(''price'', None), (''availability'', None), (''warehouse'', None), (''delivery_time'', None)]"

definition offer_fields :: "(string \<times> selector) list" where
  "offer_fields =
     [(''price'', AnyClass (ascii ''price'')),
      (''availability'', AnyClass (ascii ''availability'')),
      (''warehouse'', AnyClass (ascii ''warehouse'')),
      (''delivery_time'', AnyClass (ascii ''delivery''))]"

text \<open>
  One block: \<open>x = offer.find(class_=c)\<close>, then
  \<open>if x: offer_data[key] = x.get_text(strip=True)\<close>; the value stays \<open>None\<close> otherwise.
\<close>

fun extract_offer_fields ::
  "'e bs4 \<Rightarrow> 'e \<Rightarrow> (string \<times> selector) list \<Rightarrow> offer_data \<Rightarrow> exn + offer_data" where
  "extract_offer_fields bs offer [] od = Inr od"
| "extract_offer_fields bs offer ((key, s) # blocks) od =
     (case find_tag bs offer s of
        Inl e \<Rightarrow> Inl e
      | Inr None \<Rightarrow> extract_offer_fields bs offer blocks od
      | Inr (Some n) \<Rightarrow>
          (case get_text bs n of
             Inl e \<Rightarrow> Inl e
           | Inr t \<Rightarrow> extract_offer_fields bs offer blocks (AList.update key (Some t) od)))"

definition extract_offer :: "'e bs4 \<Rightarrow> 'e \<Rightarrow> exn + offer_data" where
  "extract_offer bs offer = extract_offer_fields bs offer offer_fields empty_offer"

text \<open>\<open>any(offer_data.values())\<close>: \<open>None\<close> and the empty string are falsy.\<close>

fun text_truthy :: "ustr option \<Rightarrow> bool" where
  "text_truthy None = False"
| "text_truthy (Some t) = (t \<noteq> [])"

definition any_values :: "offer_data \<Rightarrow> bool" where
  "any_values od = list_ex text_truthy (map snd od)"

text \<open>
  The loop of \<open>_parse_part_details\<close>. It stands inside one \<open>try\<close>: an exception in the
  body ends the loop, with the offers appended so far.
\<close>

fun collect_offers :: "'e bs4 \<Rightarrow> 'e list \<Rightarrow> offer_data list \<Rightarrow> offer_data list \<times> exn option" where
  "collect_offers bs [] offers = (offers, None)"
| "collect_offers bs (offer # rest) offers =
     (case extract_offer bs offer of
        Inl e \<Rightarrow> (offers, Some e)
      | Inr od \<Rightarrow> collect_offers bs rest (if any_values od then offers @ [od] else offers))"

definition parse_part_details :: "'e bs4 \<Rightarrow> 'e \<Rightarrow> ustr \<Rightarrow> result \<times> event list" where
  "parse_part_details bs soup article =
     (case fst (find_all_or bs soup offer_strategies) of
        Inl e \<Rightarrow> (Details article [], [LogError (DetailsParseException e)])
      | Inr offers \<Rightarrow>
          (case collect_offers bs offers [] of
             (os, None) \<Rightarrow> (Details article os, [])
           | (os, Some e) \<Rightarrow> (Details article os, [LogError (DetailsParseException e)])))"

section \<open>search_parts_by_vin and get_part_details\<close>

definition base_url :: ustr where
  "base_url = ascii ''https://emex.ru''"

text \<open>\<open>part_name\<close> is a string or \<open>None\<close>; \<open>if part_name\<close> holds for a non-empty string.\<close>

definition search_url :: "ustr \<Rightarrow> ustr option \<Rightarrow> ustr" where
  "search_url vin_code part_name =
     base_url @ ascii ''/search/vin/'' @ vin_code
       @ (case part_name of
            None \<Rightarrow> []
          | Some q \<Rightarrow> if q \<noteq> [] then ascii ''?query='' @ q else [])"

text \<open>\<open>vin_info.get('vehicle_info', {})\<close>\<close>

fun get_vehicle_info :: "result \<Rightarrow> pydict" where
  "get_vehicle_info (Decoded v vehicle_info) = vehicle_info"
| "get_vehicle_info (SearchResult v vehicle_info ps n t) = vehicle_info"
| "get_vehicle_info r = []"

definition search_parts_by_vin_try ::
  "http \<Rightarrow> 'e bs4 \<Rightarrow> ustr \<Rightarrow> ustr option \<Rightarrow> (exn + result) \<times> event list" where
  "search_parts_by_vin_try net bs vin_code part_name =
     (case decode_vin net vin_code of
        (vin_info, evs) \<Rightarrow>
          if has_error vin_info then (Inr vin_info, evs)
          else
            (case session_get net (search_url vin_code part_name) of
               Inl e \<Rightarrow> (Inl e, evs @ [SessionGet (search_url vin_code part_name) 30])
             | Inr response \<Rightarrow>
                 if status_code response \<noteq> 200 then
                   (Inr (ErrorVin (EmexRequestFailed (status_code response)) vin_code),
                    evs @ [SessionGet (search_url vin_code part_name) 30])
                 else
                   (case BeautifulSoup bs (resp_text response) of
                      Inl e \<Rightarrow> (Inl e, evs @ [SessionGet (search_url vin_code part_name) 30])
                    | Inr soup \<Rightarrow>
                        (case parse_parts_from_html bs soup of
                           (parts, evs') \<Rightarrow>
                             (Inr (SearchResult vin_code (get_vehicle_info vin_info) parts
                                     (length parts) (now_isoformat net)),
                              evs @ [SessionGet (search_url vin_code part_name) 30] @ evs')))))"

definition search_parts_by_vin ::
  "http \<Rightarrow> 'e bs4 \<Rightarrow> ustr \<Rightarrow> ustr option \<Rightarrow> result \<times> event list" where
  "search_parts_by_vin net bs vin_code part_name =
     (case search_parts_by_vin_try net bs vin_code part_name of
        (Inr r, evs) \<Rightarrow> (r, evs)
      | (Inl e, evs) \<Rightarrow> (ErrorVin (ExceptionText e) vin_code, evs @ [LogError (SearchException e)]))"

definition article_url :: "ustr \<Rightarrow> ustr" where
  "article_url article = base_url @ ascii ''/search/articles/'' @ article"

definition get_part_details_try ::
  "http \<Rightarrow> 'e bs4 \<Rightarrow> ustr \<Rightarrow> (exn + result) \<times> event list" where
  "get_part_details_try net bs article =
     (case session_get net (article_url article) of
        Inl e \<Rightarrow> (Inl e, [SessionGet (article_url article) 30])
      | Inr response \<Rightarrow>
          if status_code response \<noteq> 200 then
            (Inr (ErrorArticle (RequestFailed (status_code response)) article),
             [SessionGet (article_url article) 30])
          else
            (case BeautifulSoup bs (resp_text response) of
               Inl e \<Rightarrow> (Inl e, [SessionGet (article_url article) 30])
             | Inr soup \<Rightarrow>
                 (case parse_part_details bs soup article of
                    (details, evs) \<Rightarrow> (Inr details, SessionGet (article_url article) 30 # evs))))"

definition get_part_details :: "http \<Rightarrow> 'e bs4 \<Rightarrow> ustr \<Rightarrow> result \<times> event list" where
  "get_part_details net bs article =
     (case get_part_details_try net bs article of
        (Inr r, evs) \<Rightarrow> (r, evs)
      | (Inl e, evs) \<Rightarrow>
          (ErrorArticle (ExceptionText e) article, evs @ [LogError (DetailsException e)]))"

section \<open>The parser object and the authentication endpoint\<close>

text \<open>
  The fields of \<open>EmexVINParser\<close> that change; \<open>username\<close> and \<open>password\<close> are Python
  values (\<open>None\<close> when neither the argument nor the environment gives one).
\<close>

record parser_state =
  username :: json
  password :: json
  is_authenticated :: bool

text \<open>\<open>a or b\<close> on values.\<close>

definition py_or :: "json \<Rightarrow> json \<Rightarrow> json" where
  "py_or a b = (if truthy a then a else b)"

definition new_parser :: "http \<Rightarrow> json \<Rightarrow> json \<Rightarrow> parser_state" where
  "new_parser net u p =
     \<lparr>username = py_or u (getenv net ''EMEX_USERNAME''),
      password = py_or p (getenv net ''EMEX_PASSWORD''),
      is_authenticated = False\<rparr>"

definition login_url :: ustr where
  "login_url = base_url @ ascii ''/auth/login''"

text \<open>The method \<open>EmexVINParser.authenticate\<close>.\<close>

definition authenticate :: "http \<Rightarrow> parser_state \<Rightarrow> (bool \<times> parser_state) \<times> event list" where
  "authenticate net self =
     (if \<not> truthy (username self) \<or> \<not> truthy (password self) then
        ((False, self), [LogWarning NoCredentials])
      else
        (case session_post net login_url (username self) (password self) of
           Inl e \<Rightarrow>
             ((False, self),
              [SessionPost login_url (username self) (password self) 30,
               LogError (AuthException e)])
         | Inr response \<Rightarrow>
             if status_code response = 200 then
               ((True, self\<lparr>is_authenticated := True\<rparr>),
                [SessionPost login_url (username self) (password self) 30,
                 LogInfo AuthSucceeded])
             else
               ((False, self),
                [SessionPost login_url (username self) (password self) 30,
                 LogError (AuthStatus (status_code response))])))"

text \<open>
  The endpoint \<open>POST /api/authenticate\<close>. Its input is the outcome of
  \<open>request.get_json()\<close>; its output is the JSON body with the HTTP status, and the
  process-wide \<open>parser\<close> after the call.
\<close>

datatype api_body =
    CredentialsRequired        \<comment> \<open>the error text of the 400 response\<close>
  | ErrorBody exn              \<comment> \<open>\<open>error: str(e)\<close>\<close>
  | AuthBody bool              \<comment> \<open>\<open>authenticated\<close>, with the message that follows from it\<close>

definition api_authenticate ::
  "http \<Rightarrow> exn + json \<Rightarrow> parser_state \<Rightarrow> ((api_body \<times> nat) \<times> parser_state) \<times> event list" where
  "api_authenticate net body parser =
     (case body of
        Inl e \<Rightarrow> (((ErrorBody e, 500), parser), [])
      | Inr data \<Rightarrow>
          (case py_get data (ascii ''username'') JNull of
             Inl e \<Rightarrow> (((ErrorBody e, 500), parser), [])
           | Inr u \<Rightarrow>
               (case py_get data (ascii ''password'') JNull of
                  Inl e \<Rightarrow> (((ErrorBody e, 500), parser), [])
                | Inr p \<Rightarrow>
                    if \<not> truthy u \<or> \<not> truthy p then (((CredentialsRequired, 400), parser), [])
                    else
                      (case authenticate net (new_parser net u p) of
                         ((success, parser'), evs) \<Rightarrow>
                           (((AuthBody success, 200), parser'), NewParser u p # evs)))))"

section \<open>A document model for fixtures\<close>

text \<open>
  A parsed document as the library presents it, used for the concrete pages below: an
  element has a tag name, its list of classes, its other attributes and its children;
  text is a leaf. \<open>find_all\<close> returns the matching descendants in document order,
  \<open>find\<close> the first of them, and \<open>get_text(strip=True)\<close> joins the descendant
  strings, each stripped of surrounding whitespace, leaving out those that become empty.
\<close>

datatype node =
    Element ustr "ustr list" "(ustr \<times> ustr) list" "node list"
  | Text ustr

fun descendants :: "node \<Rightarrow> node list" where
  "descendants (Text t) = []"
| "descendants (Element tg cls attrs kids) = concat (map (\<lambda>k. k # descendants k) kids)"

fun matches :: "selector \<Rightarrow> node \<Rightarrow> bool" where
  "matches s (Text t) = False"
| "matches (TagClass tg c) (Element tg' cls attrs kids) = (tg' = tg \<and> List.member cls c)"
| "matches (TagAttr tg k v) (Element tg' cls attrs kids) = (tg' = tg \<and> map_of attrs k = Some v)"
| "matches (AnyClass c) (Element tg' cls attrs kids) = List.member cls c"

definition is_space :: "nat \<Rightarrow> bool" where
  "is_space c = List.member [9, 10, 11, 12, 13, 28, 29, 30, 31, 32, 133, 160] c"

definition strip :: "ustr \<Rightarrow> ustr" where
  "strip t = rev (dropWhile is_space (rev (dropWhile is_space t)))"

fun strings :: "node list \<Rightarrow> ustr list" where
  "strings [] = []"
| "strings (Text t # ns) = (if strip t \<noteq> [] then strip t # strings ns else strings ns)"
| "strings (Element tg cls attrs kids # ns) = strings ns"

definition node_find_all :: "node \<Rightarrow> selector \<Rightarrow> node list" where
  "node_find_all n s = filter (matches s) (descendants n)"

definition node_find :: "node \<Rightarrow> selector \<Rightarrow> node option" where
  "node_find n s = (case node_find_all n s of [] \<Rightarrow> None | m # ms \<Rightarrow> Some m)"

definition node_get_text :: "node \<Rightarrow> ustr" where
  "node_get_text n = concat (strings (descendants n))"

text \<open>The library on this model, no call raising; the constructor returns the page given.\<close>

definition dom :: "node \<Rightarrow> node bs4" where
  "dom page =
     \<lparr>BeautifulSoup = (\<lambda>text. Inr page),
      find_all = (\<lambda>n s. Inr (node_find_all n s)),
      find_tag = (\<lambda>n s. Inr (node_find n s)),
      get_text = (\<lambda>n. Inr (node_get_text n))\<rparr>"

text \<open>The same library, except that traversing the element \<open>bad\<close> raises.\<close>

definition dom_failing_at :: "node \<Rightarrow> node \<Rightarrow> node bs4" where
  "dom_failing_at bad page =
     (dom page)\<lparr>find_tag := (\<lambda>n s. if n = bad then Inl (Raised (ascii ''malformed''))
                                   else Inr (node_find n s))\<rparr>"

text \<open>Shorthands to write pages.\<close>

definition el :: "string \<Rightarrow> string list \<Rightarrow> node list \<Rightarrow> node" where
  "el tg cls kids = Element (ascii tg) (map ascii cls) [] kids"

definition txt_node :: "string \<Rightarrow> node" where
  "txt_node t = Text (ascii t)"

text \<open>
  A network in which the decode service answers \<open>d\<close> and the site answers \<open>p\<close> to every
  page request.
\<close>

definition fixture_net :: "exn + response \<Rightarrow> exn + response \<Rightarrow> http" where
  "fixture_net d p =
     \<lparr>requests_get = (\<lambda>url. d),
      session_get = (\<lambda>url. p),
      session_post = (\<lambda>url l pw. Inl (Raised (ascii ''refused''))),
      now_isoformat = ascii ''2024-01-01T00:00:00'',
      getenv = (\<lambda>name. JNull)\<rparr>"

definition page_response :: "int \<Rightarrow> response" where
  "page_response code = \<lparr>status_code = code, resp_json = Inl (Raised (ascii ''not JSON'')), resp_text = []\<rparr>"

definition json_response :: "int \<Rightarrow> json \<Rightarrow> response" where
  "json_response code data = \<lparr>status_code = code, resp_json = Inr data, resp_text = []\<rparr>"

text \<open>The events that are a page fetch through the session.\<close>

fun is_page_fetch :: "event \<Rightarrow> bool" where
  "is_page_fetch (SessionGet u t) = True"
| "is_page_fetch ev = False"

text \<open>
  Reading one key of a result item, and the \<open>(Variable, Value)\<close> pairs of a results
  list whose \<open>Value\<close> is non-empty, in the order of the list: the pairs the decoder's
  description says are inserted.
\<close>

definition item_field :: "json \<Rightarrow> string \<Rightarrow> json" where
  "item_field item k =
     (case item of
        JDict kvs \<Rightarrow> (case map_of kvs (ascii k) of None \<Rightarrow> JNull | Some v \<Rightarrow> v)
      | _ \<Rightarrow> JNull)"

definition nonempty_pairs :: "json list \<Rightarrow> (json \<times> json) list" where
  "nonempty_pairs items =
     filter (\<lambda>kv. truthy (snd kv))
       (map (\<lambda>item. (item_field item ''Variable'', item_field item ''Value'')) items)"

text \<open>
  A well-formed result item: a dict whose \<open>Variable\<close> is a string and whose \<open>Value\<close>
  is a string, \<open>null\<close> or absent.
\<close>

fun is_text_or_null :: "json \<Rightarrow> bool" where
  "is_text_or_null JNull = True"
| "is_text_or_null (JStr s) = True"
| "is_text_or_null v = False"

fun is_text :: "json \<Rightarrow> bool" where
  "is_text (JStr s) = True"
| "is_text v = False"

fun wf_item :: "json \<Rightarrow> bool" where
  "wf_item (JDict kvs) =
     (is_text (item_field (JDict kvs) ''Variable'') \<and> is_text_or_null (item_field (JDict kvs) ''Value''))"
| "wf_item v = False"

text \<open>A network in which the decode service cannot be reached.\<close>

definition offline :: http where
  "offline = fixture_net (Inl (Raised (ascii ''timeout''))) (Inr (page_response 200))"

text \<open>A VIN of 17 characters, and the decode payload of the specification's example.\<close>

definition vin17 :: ustr where
  "vin17 = ascii ''1HGCM82633A004352''"

definition toyota_items :: "json list" where
  "toyota_items =
     [JDict [(ascii ''Variable'', JStr (ascii ''Make'')), (ascii ''Value'', JStr (ascii ''Toyota''))],
      JDict [(ascii ''Variable'', JStr (ascii ''Model'')), (ascii ''Value'', JStr [])]]"

definition toyota_payload :: json where
  "toyota_payload =
     JDict [(ascii ''Results'', JList toyota_items)]"

section \<open>Properties of decode_vin\<close>

text \<open>
  C4. For every input string that is empty or whose length is not 17, \<open>decode_vin\<close>
  returns the error of the format check with the input as it was given, and nothing else
  happens: no outbound call is made (and no line is logged).
\<close>

theorem decode_vin_invalid_format:
  "vin_code = [] \<or> length vin_code \<noteq> 17 \<Longrightarrow>
     decode_vin net vin_code = (ErrorVin InvalidVinFormat vin_code, [])"
  by (simp add: decode_vin_def decode_vin_try_def)

theorem decode_vin_invalid_format_witness:
  "(ascii ''SHORT'' = [] \<or> length (ascii ''SHORT'') \<noteq> 17)
   \<and> decode_vin (fixture_net (Inr (json_response 200 (JDict []))) (Inr (page_response 200)))
         (ascii ''SHORT'')
       = (ErrorVin InvalidVinFormat (ascii ''SHORT''), [])"
  using decode_vin_invalid_format
    [of "ascii ''SHORT''" "fixture_net (Inr (json_response 200 (JDict []))) (Inr (page_response 200))"]
  by (simp add: ascii_def)

section \<open>Properties of search_parts_by_vin\<close>

lemma decode_vin_events:
  "snd (decode_vin net vin_code) = [] \<or>
   snd (decode_vin net vin_code) = [RequestsGet (nhtsa_url vin_code) 10] \<or>
   (\<exists>e. snd (decode_vin net vin_code)
          = [RequestsGet (nhtsa_url vin_code) 10, LogError (DecodeException e)])"
  by (auto simp: decode_vin_def decode_vin_try_def split: sum.splits)

lemma decode_vin_no_page_fetch: "\<not> list_ex is_page_fetch (snd (decode_vin net vin_code))"
  using decode_vin_events [of net vin_code] by auto

lemma decode_vin_error_vin:
  "has_error (fst (decode_vin net vin_code)) \<Longrightarrow>
     \<exists>m. fst (decode_vin net vin_code) = ErrorVin m vin_code"
  by (auto simp: decode_vin_def decode_vin_try_def split: sum.splits if_splits)

text \<open>
  C6. Whenever the decode step fails, that is \<open>decode_vin\<close> returns a dict with the key
  \<open>error\<close>, \<open>search_parts_by_vin\<close> returns exactly what \<open>decode_vin\<close> returned (the
  same dict and no further event), that dict is an error tagged with the VIN, and no page
  fetch through the session is among the events.
\<close>

theorem search_propagates_decode_error:
  "has_error (fst (decode_vin net vin_code)) \<Longrightarrow>
     search_parts_by_vin net bs vin_code part_name = decode_vin net vin_code
     \<and> (\<exists>m. fst (search_parts_by_vin net bs vin_code part_name) = ErrorVin m vin_code)
     \<and> \<not> list_ex is_page_fetch (snd (search_parts_by_vin net bs vin_code part_name))"
proof -
  assume err: "has_error (fst (decode_vin net vin_code))"
  have same: "search_parts_by_vin net bs vin_code part_name = decode_vin net vin_code"
    using err
    by (cases "decode_vin net vin_code")
       (simp add: search_parts_by_vin_def search_parts_by_vin_try_def)
  show ?thesis
    using same decode_vin_error_vin [OF err] decode_vin_no_page_fetch [of net vin_code]
    by simp
qed

theorem search_propagates_decode_error_witness:
  "has_error (fst (decode_vin offline (ascii ''SHORT'')))
   \<and> search_parts_by_vin offline (dom (Text [])) (ascii ''SHORT'') None
       = (ErrorVin InvalidVinFormat (ascii ''SHORT''), [])"
  using search_propagates_decode_error [of offline "ascii ''SHORT''" "dom (Text [])" None]
  by (simp add: decode_vin_def decode_vin_try_def ascii_def)


section \<open>Response status\<close>

text \<open>
  C7 (as amended). Only status 200 proceeds to parsing. With a VIN of 17 characters and a
  response received from the decode service, \<open>decode_vin\<close> parses the body when the
  status is 200 and returns its fixed decode error, tagged with the VIN, for every other
  status. With the VIN decoded and a response received for the page, \<open>search_parts_by_vin\<close>
  parses the page when the status is 200 and returns, for every other status, an error whose
  message holds that status code.
\<close>

theorem only_status_200_proceeds:
  "length vin_code = 17 \<Longrightarrow>
   (requests_get net (nhtsa_url vin_code) = Inr response \<longrightarrow>
      fst (decode_vin net vin_code) =
        (if status_code response = 200 then
           (case vehicle_info_of response of
              Inl e \<Rightarrow> ErrorVin (ExceptionText e) vin_code
            | Inr vi \<Rightarrow> Decoded vin_code vi)
         else ErrorVin DecodeFailed vin_code))
   \<and> (fst (decode_vin net vin_code) = Decoded vin_code info
        \<and> session_get net (search_url vin_code part_name) = Inr page \<longrightarrow>
      fst (search_parts_by_vin net bs vin_code part_name) =
        (if status_code page = 200 then
           (case BeautifulSoup bs (resp_text page) of
              Inl e \<Rightarrow> ErrorVin (ExceptionText e) vin_code
            | Inr soup \<Rightarrow>
                SearchResult vin_code info (fst (parse_parts_from_html bs soup))
                  (length (fst (parse_parts_from_html bs soup))) (now_isoformat net))
         else ErrorVin (EmexRequestFailed (status_code page)) vin_code))"
proof (intro conjI impI)
  assume len: "length vin_code = 17" and get: "requests_get net (nhtsa_url vin_code) = Inr response"
  from len have ne: "vin_code \<noteq> []" by auto
  show "fst (decode_vin net vin_code) =
        (if status_code response = 200 then
           (case vehicle_info_of response of
              Inl e \<Rightarrow> ErrorVin (ExceptionText e) vin_code
            | Inr vi \<Rightarrow> Decoded vin_code vi)
         else ErrorVin DecodeFailed vin_code)"
    using len ne get by (simp add: decode_vin_def decode_vin_try_def split: sum.splits)
next
  assume len: "length vin_code = 17"
    and h: "fst (decode_vin net vin_code) = Decoded vin_code info
        \<and> session_get net (search_url vin_code part_name) = Inr page"
  obtain evs where d: "decode_vin net vin_code = (Decoded vin_code info, evs)"
    using h by (cases "decode_vin net vin_code") simp
  show "fst (search_parts_by_vin net bs vin_code part_name) =
        (if status_code page = 200 then
           (case BeautifulSoup bs (resp_text page) of
              Inl e \<Rightarrow> ErrorVin (ExceptionText e) vin_code
            | Inr soup \<Rightarrow>
                SearchResult vin_code info (fst (parse_parts_from_html bs soup))
                  (length (fst (parse_parts_from_html bs soup))) (now_isoformat net))
         else ErrorVin (EmexRequestFailed (status_code page)) vin_code)"
    using h d
    by (simp add: search_parts_by_vin_def search_parts_by_vin_try_def
             split: sum.splits prod.splits)
qed

theorem only_status_200_proceeds_witness:
  "length vin17 = 17
   \<and> requests_get (fixture_net (Inr (json_response 200 toyota_payload)) (Inr (page_response 404)))
        (nhtsa_url vin17) = Inr (json_response 200 toyota_payload)
   \<and> fst (decode_vin (fixture_net (Inr (json_response 200 toyota_payload)) (Inr (page_response 404))) vin17)
       = Decoded vin17 [(JStr (ascii ''Make''), JStr (ascii ''Toyota''))]
   \<and> session_get (fixture_net (Inr (json_response 200 toyota_payload)) (Inr (page_response 404)))
        (search_url vin17 None) = Inr (page_response 404)
   \<and> fst (search_parts_by_vin (fixture_net (Inr (json_response 200 toyota_payload)) (Inr (page_response 404)))
            (dom (Text [])) vin17 None)
       = ErrorVin (EmexRequestFailed 404) vin17"
proof -
  let ?net = "fixture_net (Inr (json_response 200 toyota_payload)) (Inr (page_response 404))"
  have len: "length vin17 = 17" by (simp add: vin17_def ascii_def)
  have get: "requests_get ?net (nhtsa_url vin17) = Inr (json_response 200 toyota_payload)"
    by (simp add: fixture_net_def)
  have page: "session_get ?net (search_url vin17 None) = Inr (page_response 404)"
    by (simp add: fixture_net_def)
  have info: "vehicle_info_of (json_response 200 toyota_payload)
                = Inr [(JStr (ascii ''Make''), JStr (ascii ''Toyota''))]"
    by code_simp
  note t = only_status_200_proceeds [OF len, of ?net "json_response 200 toyota_payload"
      "[(JStr (ascii ''Make''), JStr (ascii ''Toyota''))]" None "page_response 404" "dom (Text [])"]
  have dec: "fst (decode_vin ?net vin17) = Decoded vin17 [(JStr (ascii ''Make''), JStr (ascii ''Toyota''))]"
    using t get info by (simp add: json_response_def)
  show ?thesis
    using t len get page dec by (simp add: page_response_def)
qed

text \<open>
  A decode response with status 201 is not parsed: the fixed decode error is returned, in
  which no status code appears.
\<close>

theorem status_201_is_an_error:
  "fst (decode_vin (fixture_net (Inr (json_response 201 toyota_payload)) (Inr (page_response 200))) vin17)
     = ErrorVin DecodeFailed vin17"
  by (simp add: decode_vin_def decode_vin_try_def fixture_net_def json_response_def vin17_def
      ascii_def)


section \<open>The vehicle attributes\<close>

lemma py_hash_HStr: "py_hash k = Inr (HStr s) \<longleftrightarrow> k = JStr s"
  by (cases k) auto

lemma dict_store_text: "dict_store (HStr s) (JStr s) v d = AList.update (JStr s) v d"
  by (induction d) (auto simp: py_hash_HStr)

lemma dict_setitem_text: "dict_setitem d (JStr s) v = Inr (AList.update (JStr s) v d)"
  by (simp add: dict_setitem_def dict_store_text)

lemma wf_item_get:
  "wf_item item \<Longrightarrow>
     py_get item (ascii ''Value'') JNull = Inr (item_field item ''Value'')
     \<and> py_get item (ascii ''Variable'') JNull = Inr (item_field item ''Variable'')
     \<and> is_text (item_field item ''Variable'')"
  by (cases item) (auto simp: item_field_def split: option.splits)

lemma is_text_JStr: "is_text v \<Longrightarrow> \<exists>s. v = JStr s"
  by (cases v) auto

lemma collect_vehicle_info_wf:
  "list_all wf_item items \<Longrightarrow>
     \<exists>vi. collect_vehicle_info items acc = Inr vi
        \<and> map_of vi = map_of acc ++ map_of (rev (nonempty_pairs items))
        \<and> (distinct (map fst acc) \<longrightarrow> distinct (map fst vi))
        \<and> (list_all truthy (map snd acc) \<longrightarrow> list_all truthy (map snd vi))"
proof (induction items arbitrary: acc)
  case Nil
  then show ?case by (simp add: nonempty_pairs_def)
next
  case (Cons item items)
  then have wf: "wf_item item" and wfs: "list_all wf_item items" by simp_all
  from wf_item_get [OF wf] obtain s where
    gv: "py_get item (ascii ''Value'') JNull = Inr (item_field item ''Value'')" and
    gk: "py_get item (ascii ''Variable'') JNull = Inr (JStr s)" and
    k: "item_field item ''Variable'' = JStr s"
    using is_text_JStr by fastforce
  show ?case
  proof (cases "truthy (item_field item ''Value'')")
    case False
    then have "nonempty_pairs (item # items) = nonempty_pairs items"
      by (simp add: nonempty_pairs_def)
    with False gv Cons.IH [OF wfs, of acc] show ?thesis by simp
  next
    case True
    let ?v = "item_field item ''Value''"
    let ?acc = "AList.update (JStr s) ?v acc"
    have np: "nonempty_pairs (item # items) = (JStr s, ?v) # nonempty_pairs items"
      using True k by (simp add: nonempty_pairs_def)
    from Cons.IH [OF wfs, of ?acc] obtain vi where
      c: "collect_vehicle_info items ?acc = Inr vi" and
      m: "map_of vi = map_of ?acc ++ map_of (rev (nonempty_pairs items))" and
      d: "distinct (map fst ?acc) \<longrightarrow> distinct (map fst vi)" and
      t: "list_all truthy (map snd ?acc) \<longrightarrow> list_all truthy (map snd vi)"
      by blast
    have step: "collect_vehicle_info (item # items) acc = Inr vi"
      using True gv gk c by (simp add: dict_setitem_text)
    have m': "map_of vi = map_of acc ++ map_of (rev (nonempty_pairs (item # items)))"
      using m np by (simp add: update_conv' map_add_upd_left fun_eq_iff map_add_def split: option.splits)
    have d': "distinct (map fst acc) \<longrightarrow> distinct (map fst vi)"
      using d by (simp add: distinct_update)
    have tr: "list_all truthy (map snd acc) \<Longrightarrow> list_all truthy (map snd ?acc)"
      using True by (induction acc) (auto)
    have t': "list_all truthy (map snd acc) \<longrightarrow> list_all truthy (map snd vi)"
      using t tr by blast
    show ?thesis using step m' d' t' by blast
  qed
qed

text \<open>
  C5 (as amended). For a VIN of 17 characters and a decode response with status 200 whose
  body is a dict with a \<open>Results\<close> list of well-formed items, \<open>decode_vin\<close> returns
  the VIN with a \<open>vehicle_info\<close> that, as a mapping, is the result of inserting
  \<open>Variable -> Value\<close> in list order for the pairs whose \<open>Value\<close> is non-empty (a
  repeated \<open>Variable\<close> keeps its last non-empty \<open>Value\<close>); its keys are distinct and
  no value in it is empty or \<open>None\<close>.
\<close>

theorem vehicle_info_nonempty_values:
  "length vin_code = 17 \<Longrightarrow>
   requests_get net (nhtsa_url vin_code) = Inr response \<Longrightarrow>
   status_code response = 200 \<Longrightarrow>
   resp_json response = Inr (JDict d) \<Longrightarrow>
   map_of d (ascii ''Results'') = Some (JList items) \<Longrightarrow>
   list_all wf_item items \<Longrightarrow>
   \<exists>vi. decode_vin net vin_code = (Decoded vin_code vi, [RequestsGet (nhtsa_url vin_code) 10])
      \<and> map_of vi = map_of (rev (nonempty_pairs items))
      \<and> distinct (map fst vi)
      \<and> list_all truthy (map snd vi)"
proof -
  assume len: "length vin_code = 17"
    and get: "requests_get net (nhtsa_url vin_code) = Inr response"
    and ok: "status_code response = 200"
    and js: "resp_json response = Inr (JDict d)"
    and res: "map_of d (ascii ''Results'') = Some (JList items)"
    and wf: "list_all wf_item items"
  from collect_vehicle_info_wf [OF wf, of "[]"] obtain vi where
    c: "collect_vehicle_info items [] = Inr vi" and
    m: "map_of vi = map_of (rev (nonempty_pairs items))" and
    dt: "distinct (map fst vi)" "list_all truthy (map snd vi)"
    by auto
  have "vehicle_info_of response = Inr vi"
    using js res c by (simp add: vehicle_info_of_def)
  then have "decode_vin net vin_code = (Decoded vin_code vi, [RequestsGet (nhtsa_url vin_code) 10])"
    using len get ok by (auto simp: decode_vin_def decode_vin_try_def)
  with m dt show ?thesis by blast
qed

theorem vehicle_info_nonempty_values_witness:
  "length vin17 = 17
   \<and> list_all wf_item toyota_items
   \<and> nonempty_pairs toyota_items = [(JStr (ascii ''Make''), JStr (ascii ''Toyota''))]
   \<and> (\<exists>vi. decode_vin (fixture_net (Inr (json_response 200 toyota_payload)) (Inr (page_response 200)))
               vin17
             = (Decoded vin17 vi, [RequestsGet (nhtsa_url vin17) 10])
          \<and> map_of vi = map_of (rev (nonempty_pairs toyota_items))
          \<and> distinct (map fst vi)
          \<and> list_all truthy (map snd vi))"
proof -
  let ?net = "fixture_net (Inr (json_response 200 toyota_payload)) (Inr (page_response 200))"
  have len: "length vin17 = 17" by (simp add: vin17_def ascii_def)
  have get: "requests_get ?net (nhtsa_url vin17) = Inr (json_response 200 toyota_payload)"
    by (simp add: fixture_net_def)
  have ok: "status_code (json_response 200 toyota_payload) = 200"
    by (simp add: json_response_def)
  have js: "resp_json (json_response 200 toyota_payload)
              = Inr (JDict [(ascii ''Results'', JList toyota_items)])"
    by (simp add: json_response_def toyota_payload_def)
  have res: "map_of [(ascii ''Results'', JList toyota_items)] (ascii ''Results'')
               = Some (JList toyota_items)"
    by simp
  have wf: "list_all wf_item toyota_items" by code_simp
  have np: "nonempty_pairs toyota_items = [(JStr (ascii ''Make''), JStr (ascii ''Toyota''))]"
    by code_simp
  show ?thesis
    using vehicle_info_nonempty_values [OF len get ok js res wf] len wf np by simp
qed

text \<open>
  A decode response with status 204, in the 2xx range, carrying the example payload: no
  \<open>vehicle_info\<close> is built, the fixed decode error is returned.
\<close>

theorem status_204_builds_no_vehicle_info:
  "fst (decode_vin (fixture_net (Inr (json_response 204 toyota_payload)) (Inr (page_response 200))) vin17)
     = ErrorVin DecodeFailed vin17"
  by (simp add: decode_vin_def decode_vin_try_def fixture_net_def json_response_def vin17_def
      ascii_def)

end
